theory Spec2Isabelle
  imports Complex_Main
begin

section \<open>JavaScript values\<close>

text \<open>
  The handlers of \<^verbatim>\<open>app.js\<close> read the fields of \<^verbatim>\<open>req.body\<close>, the object that
  \<^verbatim>\<open>express.json()\<close> built with \<^verbatim>\<open>JSON.parse\<close>, and test them with \<^verbatim>\<open>!\<close> and
  \<^verbatim>\<open>===\<close>. A field is any JSON value, or \<^verbatim>\<open>undefined\<close> when the key is absent.
  A number is the value of a double that \<^verbatim>\<open>JSON.parse\<close> can return: a rational
  (both zeros are \<open>0\<close>) or an infinity (\<^verbatim>\<open>1e999\<close>); \<^verbatim>\<open>NaN\<close> is not JSON.
\<close>

datatype jsnum = Num rat | PlusInfinity | MinusInfinity

datatype jsval =
    JSUndefined
  | JSNull
  | JSBool bool
  | JSNumber jsnum
  | JSString string
  | JSArray "jsval list"
  | JSObject "(string \<times> jsval) list"

text \<open>
  An object is the list of its own enumerable properties, each key once, as
  \<^verbatim>\<open>JSON.parse\<close> builds it. A body that is a JSON array is the object of its indices.
\<close>

type_synonym jsobject = "(string \<times> jsval) list"

text \<open>\<^verbatim>\<open>obj[k]\<close>: the value of the property, \<^verbatim>\<open>undefined\<close> when there is none.\<close>

definition get_prop :: "jsobject \<Rightarrow> string \<Rightarrow> jsval" where
  "get_prop obj k = (case map_of obj k of None \<Rightarrow> JSUndefined | Some v \<Rightarrow> v)"

text \<open>\<^verbatim>\<open>Object.keys(obj)\<close>\<close>

definition Object_keys :: "jsobject \<Rightarrow> string list" where
  "Object_keys obj = map fst obj"

text \<open>
  \<^verbatim>\<open>!v\<close> is true for \<^verbatim>\<open>undefined\<close>, \<^verbatim>\<open>null\<close>, \<^verbatim>\<open>false\<close>, \<^verbatim>\<open>0\<close> and \<^verbatim>\<open>""\<close>;
  every array and object, also an empty one, is truthy.
\<close>

fun truthy :: "jsval \<Rightarrow> bool" where
  "truthy JSUndefined = False"
| "truthy JSNull = False"
| "truthy (JSBool b) = b"
| "truthy (JSNumber n) = (n \<noteq> Num 0)"
| "truthy (JSString s) = (s \<noteq> [])"
| "truthy (JSArray xs) = True"
| "truthy (JSObject ps) = True"

text \<open>
  \<^verbatim>\<open>a === b\<close>, for \<open>a\<close> a stored id and \<open>b\<close> a value of the current request: primitives
  are compared by type and value. Arrays and objects are compared by reference, and
  the two operands never are the same object (a stored id was built by an earlier
  \<^verbatim>\<open>JSON.parse\<close> or is a string; the request's value is a string or comes from this
  request's \<^verbatim>\<open>JSON.parse\<close>), so the comparison is false.
\<close>

fun strict_eq :: "jsval \<Rightarrow> jsval \<Rightarrow> bool" where
  "strict_eq JSUndefined JSUndefined = True"
| "strict_eq JSNull JSNull = True"
| "strict_eq (JSBool a) (JSBool b) = (a = b)"
| "strict_eq (JSNumber a) (JSNumber b) = (a = b)"
| "strict_eq (JSString a) (JSString b) = (a = b)"
| "strict_eq a b = False"

section \<open>The registry\<close>

text \<open>
  Every element of \<^verbatim>\<open>users\<close> is an object literal with the three properties
  \<^verbatim>\<open>id\<close>, \<^verbatim>\<open>Firstname\<close>, \<^verbatim>\<open>Surname\<close> (the field \<^verbatim>\<open>id\<close> is \<open>id_u\<close> here).
\<close>

record user =
  id_u :: jsval
  Firstname :: jsval
  Surname :: jsval

definition users :: "user list" where
  "users =
     [\<lparr>id_u = JSString ''1'', Firstname = JSString ''Jyri'', Surname = JSString ''Kemppainen''\<rparr>,
      \<lparr>id_u = JSString ''2'', Firstname = JSString ''Petri'', Surname = JSString ''Laitinen''\<rparr>]"

text \<open>\<^verbatim>\<open>Array.prototype.findIndex\<close>: the first index whose element passes, else \<open>-1\<close>.\<close>

fun findIndex :: "('a \<Rightarrow> bool) \<Rightarrow> 'a list \<Rightarrow> int" where
  "findIndex P [] = - 1"
| "findIndex P (x # xs) =
     (if P x then 0 else (let i = findIndex P xs in if i = - 1 then - 1 else i + 1))"

text \<open>\<^verbatim>\<open>xs.splice(index, 1)\<close> for \<open>0 \<le> index\<close>: the array without the element at \<open>index\<close>.\<close>

definition splice1 :: "int \<Rightarrow> 'a list \<Rightarrow> 'a list" where
  "splice1 index xs = take (nat index) xs @ drop (nat index + 1) xs"

section \<open>Requests and responses\<close>

datatype payload =
    No_body
  | Json_user user
  | Json_users "user list"
  | Json_object "(string \<times> string) list"

text \<open>
  A handler sends one response, or throws: destructuring \<^verbatim>\<open>req.body\<close> when it is
  \<^verbatim>\<open>undefined\<close> is a \<^verbatim>\<open>TypeError\<close>.
\<close>

datatype outcome = Response nat payload | TypeError

text \<open>
  \<^verbatim>\<open>req.headers['content-type']\<close> is a string or \<^verbatim>\<open>undefined\<close> (\<open>None\<close>);
  \<^verbatim>\<open>req.body\<close> is the object the framework hands over, or \<^verbatim>\<open>undefined\<close> (\<open>None\<close>);
  a path parameter is a string.
\<close>

datatype request =
    Get_root
  | Get_index
  | Get_data
  | Get_data_id string
  | Post_data "string option" "jsobject option"
  | Delete_user string
  | Put_users string "string option" "jsobject option"

definition error_json :: "string \<Rightarrow> payload" where
  "error_json msg = Json_object [(''error'', msg)]"

definition unsupported_media_type :: string where
  "unsupported_media_type = ''Unsupported Media Type. Content-Type must be application/json''"

section \<open>The handlers\<close>

definition get_root :: "user list \<Rightarrow> outcome \<times> user list" where
  "get_root us = (Response 200 (Json_object [(''home'', ''Home page'')]), us)"

definition get_index :: "user list \<Rightarrow> outcome \<times> user list" where
  "get_index us = (Response 200 (Json_object [(''hello'', ''Hello World!'')]), us)"

definition get_data :: "user list \<Rightarrow> outcome \<times> user list" where
  "get_data us = (Response 200 (Json_users us), us)"

definition get_data_id :: "string \<Rightarrow> user list \<Rightarrow> outcome \<times> user list" where
  "get_data_id userId us =
     (case find (\<lambda>u. strict_eq (id_u u) (JSString userId)) us of
        Some u \<Rightarrow> (Response 200 (Json_user u), us)
      | None \<Rightarrow> (Response 404 (error_json ''User not found''), us))"

definition post_data :: "string option \<Rightarrow> jsobject option \<Rightarrow> user list \<Rightarrow> outcome \<times> user list" where
  "post_data content_type body us =
     (case body of
        None \<Rightarrow> (TypeError, us)
      | Some b \<Rightarrow>
          (let id = get_prop b ''id''; fn = get_prop b ''Firstname''; sn = get_prop b ''Surname'' in
           if content_type \<noteq> Some ''application/json'' then
             (Response 415 (error_json unsupported_media_type), us)
           else if \<not> truthy id \<or> \<not> truthy fn \<or> \<not> truthy sn then
             (Response 400 (error_json ''Missing required fields: id, Firstname, Surname''), us)
           else if length (Object_keys b) \<noteq> 3 then
             (Response 400
                (error_json ''Only id, Firstname, and Surname are allowed in the request body''), us)
           else if list_ex (\<lambda>u. strict_eq (id_u u) id) us then
             (Response 400 (error_json ''User with this ID already exists''), us)
           else
             (let newUser = \<lparr>id_u = id, Firstname = fn, Surname = sn\<rparr> in
              (Response 201 (Json_user newUser), us @ [newUser]))))"

definition delete_user :: "string \<Rightarrow> user list \<Rightarrow> outcome \<times> user list" where
  "delete_user userId us =
     (let index = findIndex (\<lambda>u. strict_eq (id_u u) (JSString userId)) us in
      if index = - 1 then (Response 404 (error_json ''user not found''), us)
      else (Response 204 No_body, splice1 index us))"

definition put_users :: "string \<Rightarrow> string option \<Rightarrow> jsobject option \<Rightarrow> user list \<Rightarrow> outcome \<times> user list" where
  "put_users userId content_type body us =
     (case body of
        None \<Rightarrow> (TypeError, us)
      | Some b \<Rightarrow>
          (let fn = get_prop b ''Firstname''; sn = get_prop b ''Surname'' in
           if content_type \<noteq> Some ''application/json'' then
             (Response 415 (error_json unsupported_media_type), us)
           else if \<not> truthy fn \<or> \<not> truthy sn then
             (Response 400 (error_json ''Missing required fields: Firstname, Surname''), us)
           else
             (let existingUserIndex = findIndex (\<lambda>u. strict_eq (id_u u) (JSString userId)) us in
              if existingUserIndex \<noteq> - 1 then
                (let us' = us[nat existingUserIndex :=
                              \<lparr>id_u = JSString userId, Firstname = fn, Surname = sn\<rparr>] in
                 (Response 200 (Json_user (us' ! nat existingUserIndex)), us'))
              else
                (let newUser = \<lparr>id_u = JSString userId, Firstname = fn, Surname = sn\<rparr> in
                 (Response 201 (Json_user newUser), us @ [newUser])))))"

text \<open>One handled request: the response and the registry it leaves.\<close>

fun handle :: "request \<Rightarrow> user list \<Rightarrow> outcome \<times> user list" where
  "handle Get_root us = get_root us"
| "handle Get_index us = get_index us"
| "handle Get_data us = get_data us"
| "handle (Get_data_id i) us = get_data_id i us"
| "handle (Post_data ct body) us = post_data ct body us"
| "handle (Delete_user i) us = delete_user i us"
| "handle (Put_users i ct body) us = put_users i ct body us"

text \<open>The registries the server can hold: the seed, and what a handled request leaves.\<close>

inductive reachable :: "user list \<Rightarrow> bool" where
  seed: "reachable users"
| step: "reachable us \<Longrightarrow> reachable (snd (handle r us))"

text \<open>The registry after a list of requests, handled in order.\<close>

fun run :: "request list \<Rightarrow> user list \<Rightarrow> user list" where
  "run [] us = us"
| "run (r # rs) us = run rs (snd (handle r us))"

section \<open>Identifiers in the registry\<close>

text \<open>The values that \<^verbatim>\<open>===\<close> compares by value: everything but arrays and objects.\<close>

fun primitive :: "jsval \<Rightarrow> bool" where
  "primitive (JSArray xs) = False"
| "primitive (JSObject ps) = False"
| "primitive v = True"

text \<open>The number of records of the registry whose id is \<open>v\<close>.\<close>

definition count_id :: "jsval \<Rightarrow> user list \<Rightarrow> nat" where
  "count_id v us = length (filter (\<lambda>u. id_u u = v) us)"

text \<open>No primitive value is the id of two records.\<close>

definition unique_ids :: "user list \<Rightarrow> bool" where
  "unique_ids us \<longleftrightarrow> (\<forall>v. primitive v \<longrightarrow> count_id v us \<le> 1)"

section \<open>Arrays: \<^verbatim>\<open>findIndex\<close>, \<^verbatim>\<open>find\<close>, strict equality\<close>

lemma strict_eq_string [simp]: "strict_eq v (JSString s) \<longleftrightarrow> v = JSString s"
  by (cases v) auto

lemma findIndex_ge: "- 1 \<le> findIndex P xs"
  by (induction xs) (auto simp: Let_def)

lemma findIndex_none: "findIndex P xs = - 1 \<longleftrightarrow> (\<forall>x\<in>set xs. \<not> P x)"
proof (induction xs)
  case Nil
  show ?case by simp
next
  case (Cons x xs)
  have "- 1 \<le> findIndex P xs" by (rule findIndex_ge)
  with Cons show ?case by (auto simp: Let_def)
qed

lemma findIndex_some:
  "findIndex P xs \<noteq> - 1 \<Longrightarrow>
     0 \<le> findIndex P xs \<and> nat (findIndex P xs) < length xs \<and> P (xs ! nat (findIndex P xs)) \<and>
     (\<forall>j < nat (findIndex P xs). \<not> P (xs ! j))"
proof (induction xs)
  case Nil
  then show ?case by simp
next
  case (Cons x xs)
  show ?case
  proof (cases "P x")
    case True
    then show ?thesis by simp
  next
    case False
    with Cons.prems have ne: "findIndex P xs \<noteq> - 1" by (auto simp: Let_def split: if_splits)
    from Cons.IH [OF ne] have ih: "0 \<le> findIndex P xs" "nat (findIndex P xs) < length xs"
      "P (xs ! nat (findIndex P xs))" "\<forall>j < nat (findIndex P xs). \<not> P (xs ! j)" by auto
    have eq: "findIndex P (x # xs) = findIndex P xs + 1" using False ne by (simp add: Let_def)
    have n: "nat (findIndex P xs + 1) = Suc (nat (findIndex P xs))" using ih(1) by simp
    show ?thesis unfolding eq n using ih False
      by (auto simp: nth_Cons split: nat.splits)
  qed
qed

lemma find_first:
  "k < length xs \<Longrightarrow> P (xs ! k) \<Longrightarrow> (\<forall>j<k. \<not> P (xs ! j)) \<Longrightarrow> find P xs = Some (xs ! k)"
proof (induction xs arbitrary: k)
  case Nil
  then show ?case by simp
next
  case (Cons x xs)
  show ?case
  proof (cases k)
    case 0
    with Cons.prems show ?thesis by simp
  next
    case (Suc n)
    with Cons.prems have "\<not> P x" by auto
    moreover have "find P xs = Some (xs ! n)"
      using Cons.prems Suc by (intro Cons.IH) auto
    ultimately show ?thesis using Suc by simp
  qed
qed

lemma find_append_new: "(\<forall>x\<in>set xs. \<not> P x) \<Longrightarrow> P y \<Longrightarrow> find P (xs @ [y]) = Some y"
  by (induction xs) auto

section \<open>The registry holds each primitive id once\<close>

lemma strict_eq_primitive: "primitive b \<Longrightarrow> strict_eq a b \<longleftrightarrow> a = b"
  by (cases a; cases b) auto

lemma count_id_append: "count_id v (us @ vs) = count_id v us + count_id v vs"
  by (simp add: count_id_def)

lemma count_id_zero: "count_id v us = 0 \<longleftrightarrow> (\<forall>u\<in>set us. id_u u \<noteq> v)"
  by (auto simp: count_id_def filter_empty_conv)

lemma count_id_update:
  "i < length us \<Longrightarrow> id_u r = id_u (us ! i) \<Longrightarrow> count_id v (us[i := r]) = count_id v us"
proof (induction us arbitrary: i)
  case Nil
  then show ?case by simp
next
  case (Cons u us)
  then show ?case by (cases i) (auto simp: count_id_def)
qed

lemma count_id_splice1: "count_id v (splice1 k us) \<le> count_id v us"
proof -
  have "count_id v (drop (nat k + 1) us) \<le> count_id v (drop (nat k) us)"
  proof (cases "nat k < length us")
    case True
    then have "drop (nat k) us = us ! nat k # drop (nat k + 1) us"
      by (simp add: Cons_nth_drop_Suc)
    then show ?thesis by (simp add: count_id_def)
  next
    case False
    then show ?thesis by simp
  qed
  moreover have "count_id v us = count_id v (take (nat k) us) + count_id v (drop (nat k) us)"
    by (simp flip: count_id_append)
  ultimately show ?thesis by (simp add: splice1_def count_id_append)
qed

lemma unique_ids_append:
  assumes "unique_ids us" and "\<not> list_ex (\<lambda>u. strict_eq (id_u u) (id_u r)) us"
  shows "unique_ids (us @ [r])"
  unfolding unique_ids_def
proof (intro allI impI)
  fix v assume p: "primitive v"
  show "count_id v (us @ [r]) \<le> 1"
  proof (cases "id_u r = v")
    case True
    with assms(2) p have "\<forall>u\<in>set us. id_u u \<noteq> v"
      by (auto simp: list_ex_iff strict_eq_primitive)
    then have "count_id v us = 0" by (simp add: count_id_zero)
    then show ?thesis by (simp add: count_id_append) (simp add: count_id_def)
  next
    case False
    with assms(1) p show ?thesis by (simp add: count_id_append unique_ids_def) (simp add: count_id_def)
  qed
qed

lemma unique_ids_post: "unique_ids us \<Longrightarrow> unique_ids (snd (post_data ct body us))"
  by (auto simp: post_data_def Let_def split: option.splits intro!: unique_ids_append)

lemma unique_ids_delete: "unique_ids us \<Longrightarrow> unique_ids (snd (delete_user i us))"
  using count_id_splice1 [of _ _ us]
  by (fastforce simp: delete_user_def Let_def unique_ids_def intro: order_trans)

lemma unique_ids_put: "unique_ids us \<Longrightarrow> unique_ids (snd (put_users i ct body us))"
proof (cases body)
  case None
  assume "unique_ids us"
  with None show ?thesis by (simp add: put_users_def)
next
  case (Some b)
  assume u: "unique_ids us"
  let ?P = "\<lambda>u. strict_eq (id_u u) (JSString i)"
  let ?r = "\<lparr>id_u = JSString i, Firstname = get_prop b ''Firstname'', Surname = get_prop b ''Surname''\<rparr>"
  show ?thesis
  proof (cases "findIndex ?P us = - 1")
    case True
    then have "\<not> list_ex (\<lambda>u. strict_eq (id_u u) (id_u ?r)) us"
      by (simp add: findIndex_none list_ex_iff)
    from unique_ids_append [OF u this] True Some u show ?thesis
      by (simp add: put_users_def Let_def)
  next
    case False
    from findIndex_some [OF False]
    have "nat (findIndex ?P us) < length us" "id_u ?r = id_u (us ! nat (findIndex ?P us))"
      by simp_all
    then have "\<And>v. count_id v (us[nat (findIndex ?P us) := ?r]) = count_id v us"
      by (rule count_id_update)
    with u have "unique_ids (us[nat (findIndex ?P us) := ?r])" by (simp add: unique_ids_def)
    with False Some u show ?thesis by (simp add: put_users_def Let_def)
  qed
qed

lemma unique_ids_handle: "unique_ids us \<Longrightarrow> unique_ids (snd (handle r us))"
  by (cases r)
    (simp_all add: get_root_def get_index_def get_data_def get_data_id_def
      unique_ids_post unique_ids_delete unique_ids_put split: option.splits)

lemma unique_ids_users: "unique_ids users"
  unfolding unique_ids_def
proof (intro allI impI)
  fix v
  show "count_id v users \<le> 1" by (auto simp: count_id_def users_def)
qed

lemma reachable_unique_ids: "reachable us \<Longrightarrow> unique_ids us"
  by (induction rule: reachable.induct) (simp_all add: unique_ids_users unique_ids_handle)

lemma reachable_run: "reachable us \<Longrightarrow> reachable (run rs us)"
  by (induction rs arbitrary: us) (simp_all add: reachable.step)

lemma unique_ids_same:
  assumes "unique_ids us" "primitive v" "i < length us" "j < length us"
    "id_u (us ! i) = v" "id_u (us ! j) = v"
  shows "i = j"
proof (rule ccontr)
  assume ne: "i \<noteq> j"
  define ks where "ks = filter (\<lambda>k. id_u (us ! k) = v) [0..<length us]"
  have "length (filter (\<lambda>u. id_u u = v) (map (\<lambda>k. us ! k) [0..<length us])) = length ks"
    unfolding ks_def by (simp add: filter_map comp_def)
  then have len: "count_id v us = length ks" by (simp add: count_id_def map_nth)
  have "distinct ks" by (simp add: ks_def)
  moreover have "{i, j} \<subseteq> set ks" using assms by (auto simp: ks_def)
  ultimately have "card {i, j} \<le> length ks"
    by (metis card_mono distinct_card List.finite_set)
  with ne len have "2 \<le> count_id v us" by simp
  with assms(1,2) show False by (auto simp: unique_ids_def)
qed

section \<open>Update or create: \<^verbatim>\<open>PUT /users/:user_id\<close>\<close>

text \<open>
  C1. A \<^verbatim>\<open>PUT /users/{user_id}\<close> with content type \<^verbatim>\<open>application/json\<close> whose body
  has \<^verbatim>\<open>Firstname\<close> and \<^verbatim>\<open>Surname\<close> that pass the handler's test (truthy values):
  when a record has the path parameter as id, the answer is 200 and the first such
  record is replaced by the path id with the body's names; when none has, the
  answer is 201 and the new record is put at the end; either way the record of the
  response carries the path parameter as id whatever the body holds under \<^verbatim>\<open>id\<close>,
  and \<^verbatim>\<open>GET /data/{user_id}\<close> on the registry left behind answers 200 with it.
  No request to this handler, whatever its content type and body, is answered 404.
\<close>

theorem put_users_upsert:
  assumes "truthy (get_prop b ''Firstname'')" and "truthy (get_prop b ''Surname'')"
  shows "(let r = \<lparr>id_u = JSString userId, Firstname = get_prop b ''Firstname'',
                   Surname = get_prop b ''Surname''\<rparr>;
              res = put_users userId (Some ''application/json'') (Some b) us in
          ((\<exists>u\<in>set us. id_u u = JSString userId) \<longrightarrow>
             (\<exists>k<length us. id_u (us ! k) = JSString userId \<and>
                (\<forall>j<k. id_u (us ! j) \<noteq> JSString userId) \<and>
                res = (Response 200 (Json_user r), us[k := r]))) \<and>
          ((\<forall>u\<in>set us. id_u u \<noteq> JSString userId) \<longrightarrow>
             res = (Response 201 (Json_user r), us @ [r])) \<and>
          get_data_id userId (snd res) = (Response 200 (Json_user r), snd res)) \<and>
         (\<forall>ct body p. fst (put_users userId ct body us) \<noteq> Response 404 p)"
proof -
  let ?P = "\<lambda>u. strict_eq (id_u u) (JSString userId)"
  let ?r = "\<lparr>id_u = JSString userId, Firstname = get_prop b ''Firstname'',
             Surname = get_prop b ''Surname''\<rparr>"
  let ?res = "put_users userId (Some ''application/json'') (Some b) us"
  let ?k = "nat (findIndex ?P us)"
  have created: "?res = (Response 201 (Json_user ?r), us @ [?r])"
    if "\<forall>u\<in>set us. id_u u \<noteq> JSString userId"
  proof -
    from that have "findIndex ?P us = - 1" by (simp add: findIndex_none)
    with assms show ?thesis by (simp add: put_users_def Let_def)
  qed
  have updated: "?k < length us \<and> id_u (us ! ?k) = JSString userId \<and>
      (\<forall>j<?k. id_u (us ! j) \<noteq> JSString userId) \<and>
      ?res = (Response 200 (Json_user ?r), us[?k := ?r])"
    if "\<exists>u\<in>set us. id_u u = JSString userId"
  proof -
    from that have ne: "findIndex ?P us \<noteq> - 1" by (simp add: findIndex_none)
    from findIndex_some [OF ne] have k: "?k < length us" "id_u (us ! ?k) = JSString userId"
      "\<forall>j<?k. id_u (us ! j) \<noteq> JSString userId" by simp_all
    from ne assms k(1) have "?res = (Response 200 (Json_user ?r), us[?k := ?r])"
      by (simp add: put_users_def Let_def)
    with k show ?thesis by simp
  qed
  have reach: "get_data_id userId (snd ?res) = (Response 200 (Json_user ?r), snd ?res)"
  proof (cases "\<exists>u\<in>set us. id_u u = JSString userId")
    case True
    from updated [OF True] have k: "?k < length us"
      "\<forall>j<?k. id_u (us ! j) \<noteq> JSString userId"
      and res: "snd ?res = us[?k := ?r]" by simp_all
    have "find ?P (us[?k := ?r]) = Some (us[?k := ?r] ! ?k)"
      using k by (intro find_first) simp_all
    with k(1) have "find ?P (us[?k := ?r]) = Some ?r" by simp
    then show ?thesis unfolding res by (simp add: get_data_id_def)
  next
    case False
    then have no: "\<forall>u\<in>set us. id_u u \<noteq> JSString userId" by simp
    from created [OF no] have res: "snd ?res = us @ [?r]" by simp
    have "find ?P (us @ [?r]) = Some ?r" using no by (intro find_append_new) simp_all
    then show ?thesis unfolding res by (simp add: get_data_id_def)
  qed
  have never: "fst (put_users userId ct body us) \<noteq> Response 404 p" for ct body p
    by (simp add: put_users_def Let_def split: option.splits)
  from created updated reach never show ?thesis unfolding Let_def by blast
qed

theorem put_users_upsert_witness:
  "put_users ''1'' (Some ''application/json'')
     (Some [(''id'', JSString ''9''), (''Firstname'', JSString ''Louvre''), (''Surname'', JSString ''Museum'')])
     users =
   (Response 200
      (Json_user \<lparr>id_u = JSString ''1'', Firstname = JSString ''Louvre'', Surname = JSString ''Museum''\<rparr>),
    [\<lparr>id_u = JSString ''1'', Firstname = JSString ''Louvre'', Surname = JSString ''Museum''\<rparr>,
     \<lparr>id_u = JSString ''2'', Firstname = JSString ''Petri'', Surname = JSString ''Laitinen''\<rparr>]) \<and>
   put_users ''3'' (Some ''application/json'')
     (Some [(''id'', JSString ''9''), (''Firstname'', JSString ''Statue''), (''Surname'', JSString ''Liberty'')])
     users =
   (Response 201
      (Json_user \<lparr>id_u = JSString ''3'', Firstname = JSString ''Statue'', Surname = JSString ''Liberty''\<rparr>),
    users @ [\<lparr>id_u = JSString ''3'', Firstname = JSString ''Statue'', Surname = JSString ''Liberty''\<rparr>])"
proof -
  have t: "truthy (get_prop [(''id'', JSString ''9''), (''Firstname'', JSString ''Louvre''), (''Surname'', JSString ''Museum'')] ''Firstname'')"
    "truthy (get_prop [(''id'', JSString ''9''), (''Firstname'', JSString ''Louvre''), (''Surname'', JSString ''Museum'')] ''Surname'')"
    "truthy (get_prop [(''id'', JSString ''9''), (''Firstname'', JSString ''Statue''), (''Surname'', JSString ''Liberty'')] ''Firstname'')"
    "truthy (get_prop [(''id'', JSString ''9''), (''Firstname'', JSString ''Statue''), (''Surname'', JSString ''Liberty'')] ''Surname'')"
    by (simp_all add: get_prop_def)
  show ?thesis
    using put_users_upsert [OF t(1) t(2), of "''1''" users]
      put_users_upsert [OF t(3) t(4), of "''3''" users]
    by (auto simp: Let_def users_def get_prop_def less_Suc_eq)
qed

section \<open>Create: \<^verbatim>\<open>POST /data\<close>\<close>

lemma truthy_get_prop_key: "truthy (get_prop b k) \<Longrightarrow> k \<in> set (Object_keys b)"
  using map_of_eq_None_iff [of b k]
  by (cases "map_of b k") (auto simp: get_prop_def Object_keys_def)

text \<open>
  C2, amended. A \<^verbatim>\<open>POST /data\<close> with content type \<^verbatim>\<open>application/json\<close>, the three
  required fields present (truthy), exactly three body keys, and a body id that is a
  primitive value (a string, a number, a boolean) and is the id of a record of the
  registry: the answer is 400, \<^verbatim>\<open>User with this ID already exists\<close>, and the registry
  is left as it was. An id that is a JSON object or array is outside this statement:
  \<^verbatim>\<open>===\<close> compares it by reference, so it never equals the id of a stored record,
  and the counterexample shows the second of two such requests answered 201 with the
  record stored again.
\<close>

theorem post_data_duplicate_id:
  assumes "truthy (get_prop b ''id'')" and "truthy (get_prop b ''Firstname'')"
    and "truthy (get_prop b ''Surname'')" and "length (Object_keys b) = 3"
    and "primitive (get_prop b ''id'')" and "\<exists>u\<in>set us. id_u u = get_prop b ''id''"
  shows "post_data (Some ''application/json'') (Some b) us =
           (Response 400 (error_json ''User with this ID already exists''), us)"
proof -
  from assms(5,6) have "list_ex (\<lambda>u. strict_eq (id_u u) (get_prop b ''id'')) us"
    by (auto simp: list_ex_iff strict_eq_primitive)
  with assms(1-4) show ?thesis by (simp add: post_data_def Let_def)
qed

theorem post_data_duplicate_id_witness:
  "post_data (Some ''application/json'')
     (Some [(''id'', JSString ''2''), (''Firstname'', JSString ''Maria''), (''Surname'', JSString ''Virtanen'')])
     users =
   (Response 400 (error_json ''User with this ID already exists''), users)"
proof -
  let ?b = "[(''id'', JSString ''2''), (''Firstname'', JSString ''Maria''), (''Surname'', JSString ''Virtanen'')]"
  have "truthy (get_prop ?b ''id'')" "truthy (get_prop ?b ''Firstname'')"
    "truthy (get_prop ?b ''Surname'')" "length (Object_keys ?b) = 3"
    "primitive (get_prop ?b ''id'')" "\<exists>u\<in>set users. id_u u = get_prop ?b ''id''"
    by (simp_all add: get_prop_def Object_keys_def users_def)
  then show ?thesis by (rule post_data_duplicate_id)
qed

theorem post_data_duplicate_id_counterexample:
  "snd (post_data (Some ''application/json'')
          (Some [(''id'', JSObject []), (''Firstname'', JSString ''A''), (''Surname'', JSString ''B'')])
          users) =
     users @ [\<lparr>id_u = JSObject [], Firstname = JSString ''A'', Surname = JSString ''B''\<rparr>] \<and>
   post_data (Some ''application/json'')
     (Some [(''id'', JSObject []), (''Firstname'', JSString ''A''), (''Surname'', JSString ''B'')])
     (users @ [\<lparr>id_u = JSObject [], Firstname = JSString ''A'', Surname = JSString ''B''\<rparr>]) =
   (Response 201 (Json_user \<lparr>id_u = JSObject [], Firstname = JSString ''A'', Surname = JSString ''B''\<rparr>),
    users @ [\<lparr>id_u = JSObject [], Firstname = JSString ''A'', Surname = JSString ''B''\<rparr>,
             \<lparr>id_u = JSObject [], Firstname = JSString ''A'', Surname = JSString ''B''\<rparr>])"
  by (simp add: post_data_def Let_def get_prop_def Object_keys_def users_def)

text \<open>
  C3. A \<^verbatim>\<open>POST /data\<close> with content type \<^verbatim>\<open>application/json\<close> whose body has
  \<^verbatim>\<open>id\<close>, \<^verbatim>\<open>Firstname\<close> and \<^verbatim>\<open>Surname\<close> with truthy values and one more key
  \<open>k\<close> is answered 400, \<^verbatim>\<open>Only id, Firstname, and Surname are allowed in the request body\<close>,
  with the registry unchanged. Conversely every \<^verbatim>\<open>POST /data\<close> answered 201 has a
  body whose keys are exactly \<^verbatim>\<open>id\<close>, \<^verbatim>\<open>Firstname\<close>, \<^verbatim>\<open>Surname\<close>.
\<close>

theorem post_data_extra_key:
  "(truthy (get_prop b ''id'') \<and> truthy (get_prop b ''Firstname'') \<and>
    truthy (get_prop b ''Surname'') \<and> k \<in> set (Object_keys b) \<and>
    k \<notin> {''id'', ''Firstname'', ''Surname''} \<longrightarrow>
      post_data (Some ''application/json'') (Some b) us =
        (Response 400
           (error_json ''Only id, Firstname, and Surname are allowed in the request body''), us)) \<and>
   (fst (post_data ct body us) = Response 201 p \<longrightarrow>
      (\<exists>b'. body = Some b' \<and> length (Object_keys b') = 3 \<and>
            set (Object_keys b') = {''id'', ''Firstname'', ''Surname''}))"
proof (intro conjI impI)
  assume a: "truthy (get_prop b ''id'') \<and> truthy (get_prop b ''Firstname'') \<and>
    truthy (get_prop b ''Surname'') \<and> k \<in> set (Object_keys b) \<and>
    k \<notin> {''id'', ''Firstname'', ''Surname''}"
  then have sub: "{''id'', ''Firstname'', ''Surname'', k} \<subseteq> set (Object_keys b)"
    by (simp add: truthy_get_prop_key)
  have "card {''id'', ''Firstname'', ''Surname'', k} = 4" using a by auto
  with sub have "4 \<le> card (set (Object_keys b))"
    by (metis card_mono List.finite_set)
  also have "\<dots> \<le> length (Object_keys b)" by (rule card_length)
  finally have "length (Object_keys b) \<noteq> 3" by simp
  with a show "post_data (Some ''application/json'') (Some b) us =
        (Response 400
           (error_json ''Only id, Firstname, and Surname are allowed in the request body''), us)"
    by (simp add: post_data_def Let_def)
next
  assume c: "fst (post_data ct body us) = Response 201 p"
  then obtain b' where b': "body = Some b'"
    by (cases body) (simp_all add: post_data_def)
  from c b' have t: "truthy (get_prop b' ''id'')" "truthy (get_prop b' ''Firstname'')"
    "truthy (get_prop b' ''Surname'')" and len: "length (Object_keys b') = 3"
    by (auto simp: post_data_def Let_def split: if_splits)
  from t have sub: "{''id'', ''Firstname'', ''Surname''} \<subseteq> set (Object_keys b')"
    by (simp add: truthy_get_prop_key)
  have "card (set (Object_keys b')) \<le> 3" using card_length [of "Object_keys b'"] len by simp
  moreover have "card {''id'', ''Firstname'', ''Surname''} = 3" by simp
  ultimately have "{''id'', ''Firstname'', ''Surname''} = set (Object_keys b')"
    using sub by (intro card_seteq) simp_all
  with b' len show "\<exists>b'. body = Some b' \<and> length (Object_keys b') = 3 \<and>
            set (Object_keys b') = {''id'', ''Firstname'', ''Surname''}" by simp
qed

theorem post_data_extra_key_witness:
  "post_data (Some ''application/json'')
     (Some [(''id'', JSString ''3''), (''Firstname'', JSString ''Maria''),
            (''Surname'', JSString ''Virtanen''), (''extra'', JSBool True)])
     users =
   (Response 400
      (error_json ''Only id, Firstname, and Surname are allowed in the request body''), users) \<and>
   fst (post_data (Some ''application/json'')
     (Some [(''id'', JSString ''3''), (''Firstname'', JSString ''Maria''),
            (''Surname'', JSString ''Virtanen'')]) users) =
   Response 201 (Json_user \<lparr>id_u = JSString ''3'', Firstname = JSString ''Maria'',
                             Surname = JSString ''Virtanen''\<rparr>) \<and>
   set (Object_keys [(''id'', JSString ''3''), (''Firstname'', JSString ''Maria''),
            (''Surname'', JSString ''Virtanen'')]) = {''id'', ''Firstname'', ''Surname''}"
proof -
  let ?b4 = "[(''id'', JSString ''3''), (''Firstname'', JSString ''Maria''),
            (''Surname'', JSString ''Virtanen''), (''extra'', JSBool True)]"
  let ?b3 = "[(''id'', JSString ''3''), (''Firstname'', JSString ''Maria''),
            (''Surname'', JSString ''Virtanen'')]"
  have h: "truthy (get_prop ?b4 ''id'') \<and> truthy (get_prop ?b4 ''Firstname'') \<and>
    truthy (get_prop ?b4 ''Surname'') \<and> ''extra'' \<in> set (Object_keys ?b4) \<and>
    ''extra'' \<notin> {''id'', ''Firstname'', ''Surname''}"
    by (simp add: get_prop_def Object_keys_def)
  have c: "fst (post_data (Some ''application/json'') (Some ?b3) users) =
    Response 201 (Json_user \<lparr>id_u = JSString ''3'', Firstname = JSString ''Maria'',
                             Surname = JSString ''Virtanen''\<rparr>)"
    by (simp add: post_data_def Let_def get_prop_def Object_keys_def users_def)
  from post_data_extra_key [of ?b4 "''extra''" users "Some ''application/json''" "Some ?b3"
      "Json_user \<lparr>id_u = JSString ''3'', Firstname = JSString ''Maria'',
                             Surname = JSString ''Virtanen''\<rparr>"] h c
  show ?thesis by simp
qed

text \<open>
  C8. \<^verbatim>\<open>GET /data\<close> answers 200 with the whole registry, in its order, and a
  \<^verbatim>\<open>POST /data\<close> answered 201 has put the record of its response at the end of the
  registry. From the seed registry, the \<^verbatim>\<open>POST\<close> of id \<^verbatim>\<open>"3"\<close>, \<^verbatim>\<open>Maria\<close>,
  \<^verbatim>\<open>Virtanen\<close> with content type \<^verbatim>\<open>application/json\<close> is answered 201 with that
  record, and \<^verbatim>\<open>GET /data\<close> then lists the two seed records and the new one, in this
  order.
\<close>

theorem get_data_lists_in_insertion_order:
  "get_data us = (Response 200 (Json_users us), us) \<and>
   (fst (post_data ct body us) = Response 201 p \<longrightarrow>
      (\<exists>r. p = Json_user r \<and> snd (post_data ct body us) = us @ [r])) \<and>
   post_data (Some ''application/json'')
     (Some [(''id'', JSString ''3''), (''Firstname'', JSString ''Maria''),
            (''Surname'', JSString ''Virtanen'')]) users =
     (Response 201
        (Json_user \<lparr>id_u = JSString ''3'', Firstname = JSString ''Maria'',
                     Surname = JSString ''Virtanen''\<rparr>),
      users @ [\<lparr>id_u = JSString ''3'', Firstname = JSString ''Maria'',
                 Surname = JSString ''Virtanen''\<rparr>]) \<and>
   fst (get_data (snd (post_data (Some ''application/json'')
     (Some [(''id'', JSString ''3''), (''Firstname'', JSString ''Maria''),
            (''Surname'', JSString ''Virtanen'')]) users))) =
     Response 200 (Json_users
       [\<lparr>id_u = JSString ''1'', Firstname = JSString ''Jyri'', Surname = JSString ''Kemppainen''\<rparr>,
        \<lparr>id_u = JSString ''2'', Firstname = JSString ''Petri'', Surname = JSString ''Laitinen''\<rparr>,
        \<lparr>id_u = JSString ''3'', Firstname = JSString ''Maria'', Surname = JSString ''Virtanen''\<rparr>])"
proof (intro conjI impI)
  show "get_data us = (Response 200 (Json_users us), us)" by (simp add: get_data_def)
next
  assume "fst (post_data ct body us) = Response 201 p"
  then show "\<exists>r. p = Json_user r \<and> snd (post_data ct body us) = us @ [r]"
    by (cases body) (auto simp: post_data_def Let_def split: if_splits)
next
  show "post_data (Some ''application/json'')
     (Some [(''id'', JSString ''3''), (''Firstname'', JSString ''Maria''),
            (''Surname'', JSString ''Virtanen'')]) users =
     (Response 201
        (Json_user \<lparr>id_u = JSString ''3'', Firstname = JSString ''Maria'',
                     Surname = JSString ''Virtanen''\<rparr>),
      users @ [\<lparr>id_u = JSString ''3'', Firstname = JSString ''Maria'',
                 Surname = JSString ''Virtanen''\<rparr>])"
    by (simp add: post_data_def Let_def get_prop_def Object_keys_def users_def)
  then show "fst (get_data (snd (post_data (Some ''application/json'')
     (Some [(''id'', JSString ''3''), (''Firstname'', JSString ''Maria''),
            (''Surname'', JSString ''Virtanen'')]) users))) =
     Response 200 (Json_users
       [\<lparr>id_u = JSString ''1'', Firstname = JSString ''Jyri'', Surname = JSString ''Kemppainen''\<rparr>,
        \<lparr>id_u = JSString ''2'', Firstname = JSString ''Petri'', Surname = JSString ''Laitinen''\<rparr>,
        \<lparr>id_u = JSString ''3'', Firstname = JSString ''Maria'', Surname = JSString ''Virtanen''\<rparr>])"
    by (simp add: get_data_def users_def)
qed

theorem get_data_lists_in_insertion_order_witness:
  "fst (post_data (Some ''application/json'')
     (Some [(''id'', JSNumber (Num 7)), (''Firstname'', JSString ''Aino''),
            (''Surname'', JSString ''Ranta'')]) users) =
     Response 201 (Json_user \<lparr>id_u = JSNumber (Num 7), Firstname = JSString ''Aino'',
                     Surname = JSString ''Ranta''\<rparr>) \<and>
   snd (post_data (Some ''application/json'')
     (Some [(''id'', JSNumber (Num 7)), (''Firstname'', JSString ''Aino''),
            (''Surname'', JSString ''Ranta'')]) users) =
     users @ [\<lparr>id_u = JSNumber (Num 7), Firstname = JSString ''Aino'', Surname = JSString ''Ranta''\<rparr>]"
proof -
  have c: "fst (post_data (Some ''application/json'')
     (Some [(''id'', JSNumber (Num 7)), (''Firstname'', JSString ''Aino''),
            (''Surname'', JSString ''Ranta'')]) users) =
     Response 201 (Json_user \<lparr>id_u = JSNumber (Num 7), Firstname = JSString ''Aino'',
                     Surname = JSString ''Ranta''\<rparr>)"
    by (simp add: post_data_def Let_def get_prop_def Object_keys_def users_def)
  from get_data_lists_in_insertion_order [of users "Some ''application/json''"
      "Some [(''id'', JSNumber (Num 7)), (''Firstname'', JSString ''Aino''),
            (''Surname'', JSString ''Ranta'')]"
      "Json_user \<lparr>id_u = JSNumber (Num 7), Firstname = JSString ''Aino'',
                     Surname = JSString ''Ranta''\<rparr>"] c
  show ?thesis by auto
qed

section \<open>The order of the checks\<close>

text \<open>
  C4. The order of the checks of \<^verbatim>\<open>POST /data\<close> and \<^verbatim>\<open>PUT /users/{user_id}\<close>, for a
  request whose body is an object. A content type other than \<^verbatim>\<open>application/json\<close> is
  answered 415 whatever the body holds. With that content type, a missing (falsy)
  required field is answered 400 with the missing-fields message, whatever the number
  of keys and whether or not the id is taken. With the three fields present, a
  \<^verbatim>\<open>POST\<close> whose body has not exactly three keys is answered 400 with the
  only-three-fields message, before the id is looked up. The two examples: a
  \<^verbatim>\<open>POST\<close> with content type \<^verbatim>\<open>text/plain\<close> and no field is answered 415; a
  \<^verbatim>\<open>POST\<close> with content type \<^verbatim>\<open>application/json\<close>, no \<^verbatim>\<open>Surname\<close> and the id
  \<^verbatim>\<open>"1"\<close> of a seed record is answered with the missing-fields 400.
\<close>

theorem validation_order:
  "(ct \<noteq> Some ''application/json'' \<longrightarrow>
      post_data ct (Some b) us = (Response 415 (error_json unsupported_media_type), us) \<and>
      put_users userId ct (Some b) us = (Response 415 (error_json unsupported_media_type), us)) \<and>
   (\<not> truthy (get_prop b ''id'') \<or> \<not> truthy (get_prop b ''Firstname'') \<or>
    \<not> truthy (get_prop b ''Surname'') \<longrightarrow>
      post_data (Some ''application/json'') (Some b) us =
        (Response 400 (error_json ''Missing required fields: id, Firstname, Surname''), us)) \<and>
   (\<not> truthy (get_prop b ''Firstname'') \<or> \<not> truthy (get_prop b ''Surname'') \<longrightarrow>
      put_users userId (Some ''application/json'') (Some b) us =
        (Response 400 (error_json ''Missing required fields: Firstname, Surname''), us)) \<and>
   (truthy (get_prop b ''id'') \<and> truthy (get_prop b ''Firstname'') \<and>
    truthy (get_prop b ''Surname'') \<and> length (Object_keys b) \<noteq> 3 \<longrightarrow>
      post_data (Some ''application/json'') (Some b) us =
        (Response 400
           (error_json ''Only id, Firstname, and Surname are allowed in the request body''), us)) \<and>
   post_data (Some ''text/plain'') (Some []) users =
     (Response 415 (error_json unsupported_media_type), users) \<and>
   post_data (Some ''application/json'')
     (Some [(''id'', JSString ''1''), (''Firstname'', JSString ''Jyri'')]) users =
     (Response 400 (error_json ''Missing required fields: id, Firstname, Surname''), users)"
  by (simp add: post_data_def put_users_def Let_def get_prop_def)

theorem validation_order_witness:
  "post_data None (Some [(''id'', JSString ''1'')]) users =
     (Response 415 (error_json unsupported_media_type), users) \<and>
   put_users ''1'' (Some ''text/html'') (Some [(''id'', JSString ''1'')]) users =
     (Response 415 (error_json unsupported_media_type), users) \<and>
   post_data (Some ''application/json'')
     (Some [(''id'', JSString ''1''), (''Surname'', JSString ''K''), (''a'', JSNull), (''b'', JSNull)])
     users =
     (Response 400 (error_json ''Missing required fields: id, Firstname, Surname''), users) \<and>
   put_users ''1'' (Some ''application/json'') (Some [(''Firstname'', JSString '''')]) users =
     (Response 400 (error_json ''Missing required fields: Firstname, Surname''), users) \<and>
   post_data (Some ''application/json'')
     (Some [(''id'', JSString ''1''), (''Firstname'', JSString ''J''), (''Surname'', JSString ''K''),
            (''a'', JSNull)])
     users =
     (Response 400
        (error_json ''Only id, Firstname, and Surname are allowed in the request body''), users)"
  using validation_order [of None "[(''id'', JSString ''1'')]" users "''1''"]
    validation_order [of "Some ''text/html''" "[(''id'', JSString ''1'')]" users "''1''"]
    validation_order [of None
      "[(''id'', JSString ''1''), (''Surname'', JSString ''K''), (''a'', JSNull), (''b'', JSNull)]"
      users "''1''"]
    validation_order [of None "[(''Firstname'', JSString '''')]" users "''1''"]
    validation_order [of None
      "[(''id'', JSString ''1''), (''Firstname'', JSString ''J''), (''Surname'', JSString ''K''),
        (''a'', JSNull)]" users "''1''"]
  by (simp add: get_prop_def Object_keys_def)

text \<open>
  C10. An empty string is a missing field. A \<^verbatim>\<open>POST /data\<close> with content type
  \<^verbatim>\<open>application/json\<close> whose \<^verbatim>\<open>id\<close>, \<^verbatim>\<open>Firstname\<close> or \<^verbatim>\<open>Surname\<close> is the
  empty string, and a \<^verbatim>\<open>PUT /users/{user_id}\<close> with that content type whose
  \<^verbatim>\<open>Firstname\<close> or \<^verbatim>\<open>Surname\<close> is the empty string, are answered 400 with the
  missing-required-fields message of the handler, and the registry is unchanged.
\<close>

theorem empty_string_is_missing:
  "(get_prop b ''id'' = JSString [] \<or> get_prop b ''Firstname'' = JSString [] \<or>
    get_prop b ''Surname'' = JSString [] \<longrightarrow>
      post_data (Some ''application/json'') (Some b) us =
        (Response 400 (error_json ''Missing required fields: id, Firstname, Surname''), us)) \<and>
   (get_prop b ''Firstname'' = JSString [] \<or> get_prop b ''Surname'' = JSString [] \<longrightarrow>
      put_users userId (Some ''application/json'') (Some b) us =
        (Response 400 (error_json ''Missing required fields: Firstname, Surname''), us))"
  by (auto simp: post_data_def put_users_def Let_def)

theorem empty_string_is_missing_witness:
  "post_data (Some ''application/json'')
     (Some [(''id'', JSString ''3''), (''Firstname'', JSString ''''), (''Surname'', JSString ''Virtanen'')])
     users =
     (Response 400 (error_json ''Missing required fields: id, Firstname, Surname''), users) \<and>
   put_users ''1'' (Some ''application/json'')
     (Some [(''Firstname'', JSString ''Louvre''), (''Surname'', JSString '''')]) users =
     (Response 400 (error_json ''Missing required fields: Firstname, Surname''), users)"
  using empty_string_is_missing
      [of "[(''id'', JSString ''3''), (''Firstname'', JSString ''''), (''Surname'', JSString ''Virtanen'')]"
        users "''1''"]
    empty_string_is_missing
      [of "[(''Firstname'', JSString ''Louvre''), (''Surname'', JSString '''')]" users "''1''"]
  by (simp add: get_prop_def)

section \<open>Read: \<^verbatim>\<open>GET /data/:id\<close>\<close>

lemma find_findIndex:
  "findIndex P xs \<noteq> - 1 \<Longrightarrow> find P xs = Some (xs ! nat (findIndex P xs))"
  using findIndex_some [of P xs] by (intro find_first) simp_all

lemma unique_ids_first:
  assumes "unique_ids us" and "u \<in> set us" and "id_u u = JSString i"
  shows "findIndex (\<lambda>u. strict_eq (id_u u) (JSString i)) us \<noteq> - 1"
    and "us ! nat (findIndex (\<lambda>u. strict_eq (id_u u) (JSString i)) us) = u"
    and "\<forall>j<length us. j \<noteq> nat (findIndex (\<lambda>u. strict_eq (id_u u) (JSString i)) us) \<longrightarrow>
           id_u (us ! j) \<noteq> JSString i"
proof -
  let ?P = "\<lambda>u. strict_eq (id_u u) (JSString i)"
  let ?k = "nat (findIndex ?P us)"
  from assms(2,3) show ne: "findIndex ?P us \<noteq> - 1" by (auto simp: findIndex_none)
  from findIndex_some [OF ne] have k: "?k < length us" "id_u (us ! ?k) = JSString i" by simp_all
  have same: "j = ?k" if "j < length us" "id_u (us ! j) = JSString i" for j
    using unique_ids_same [OF assms(1) _ that(1) k(1) that(2) k(2)] by simp
  from assms(2) obtain n where n: "n < length us" "us ! n = u" by (auto simp: in_set_conv_nth)
  with assms(3) same [of n] show "us ! ?k = u" by auto
  from same show "\<forall>j<length us. j \<noteq> ?k \<longrightarrow> id_u (us ! j) \<noteq> JSString i" by blast
qed

text \<open>
  C5, amended. In every registry the server can hold, \<^verbatim>\<open>GET /data/{id}\<close> answers 200
  with the record \<open>u\<close> for every record \<open>u\<close> whose id is the string of the path
  parameter (so there is one such record and the body is exactly it), and 404 with
  \<^verbatim>\<open>{"error":"User not found"}\<close> when no record has that string as id. The registry
  is not changed. An id stored as another JSON value is outside the 200 half: a path
  parameter is a string and \<^verbatim>\<open>===\<close> does not convert, so the counterexample, the
  registry after a \<^verbatim>\<open>POST /data\<close> with the number \<^verbatim>\<open>7\<close> as id, holds a record
  with id \<^verbatim>\<open>7\<close> and answers \<^verbatim>\<open>GET /data/7\<close> with 404.
\<close>

theorem get_data_id_lookup:
  assumes "reachable us"
  shows "(\<forall>u\<in>set us. id_u u = JSString i \<longrightarrow>
            get_data_id i us = (Response 200 (Json_user u), us)) \<and>
         ((\<forall>u\<in>set us. id_u u \<noteq> JSString i) \<longrightarrow>
            get_data_id i us = (Response 404 (error_json ''User not found''), us))"
proof (intro conjI ballI impI)
  fix u assume u: "u \<in> set us" "id_u u = JSString i"
  from assms have uq: "unique_ids us" by (rule reachable_unique_ids)
  from unique_ids_first(1,2) [OF uq u] find_findIndex
  have "find (\<lambda>u. strict_eq (id_u u) (JSString i)) us = Some u" by fastforce
  then show "get_data_id i us = (Response 200 (Json_user u), us)"
    by (simp add: get_data_id_def)
next
  assume "\<forall>u\<in>set us. id_u u \<noteq> JSString i"
  then have "find (\<lambda>u. strict_eq (id_u u) (JSString i)) us = None"
    by (simp add: find_None_iff)
  then show "get_data_id i us = (Response 404 (error_json ''User not found''), us)"
    by (simp add: get_data_id_def)
qed

theorem get_data_id_lookup_witness:
  "reachable
     (run [Post_data (Some ''application/json'')
             (Some [(''id'', JSString ''3''), (''Firstname'', JSString ''Maria''),
                    (''Surname'', JSString ''Virtanen'')]),
           Delete_user ''1''] users) \<and>
   get_data_id ''3''
     (run [Post_data (Some ''application/json'')
             (Some [(''id'', JSString ''3''), (''Firstname'', JSString ''Maria''),
                    (''Surname'', JSString ''Virtanen'')]),
           Delete_user ''1''] users) =
     (Response 200
        (Json_user \<lparr>id_u = JSString ''3'', Firstname = JSString ''Maria'',
                     Surname = JSString ''Virtanen''\<rparr>),
      [\<lparr>id_u = JSString ''2'', Firstname = JSString ''Petri'', Surname = JSString ''Laitinen''\<rparr>,
       \<lparr>id_u = JSString ''3'', Firstname = JSString ''Maria'', Surname = JSString ''Virtanen''\<rparr>]) \<and>
   get_data_id ''1''
     (run [Post_data (Some ''application/json'')
             (Some [(''id'', JSString ''3''), (''Firstname'', JSString ''Maria''),
                    (''Surname'', JSString ''Virtanen'')]),
           Delete_user ''1''] users) =
     (Response 404 (error_json ''User not found''),
      [\<lparr>id_u = JSString ''2'', Firstname = JSString ''Petri'', Surname = JSString ''Laitinen''\<rparr>,
       \<lparr>id_u = JSString ''3'', Firstname = JSString ''Maria'', Surname = JSString ''Virtanen''\<rparr>])"
proof -
  let ?rs = "[Post_data (Some ''application/json'')
             (Some [(''id'', JSString ''3''), (''Firstname'', JSString ''Maria''),
                    (''Surname'', JSString ''Virtanen'')]),
           Delete_user ''1'']"
  have r: "reachable (run ?rs users)" by (rule reachable_run) (rule reachable.seed)
  have e: "run ?rs users =
      [\<lparr>id_u = JSString ''2'', Firstname = JSString ''Petri'', Surname = JSString ''Laitinen''\<rparr>,
       \<lparr>id_u = JSString ''3'', Firstname = JSString ''Maria'', Surname = JSString ''Virtanen''\<rparr>]"
    by (simp add: post_data_def delete_user_def splice1_def Let_def get_prop_def
        Object_keys_def users_def)
  from get_data_id_lookup [OF r, of "''3''"] get_data_id_lookup [OF r, of "''1''"] r
  show ?thesis unfolding e by simp
qed

theorem get_data_id_lookup_counterexample:
  "reachable
     (run [Post_data (Some ''application/json'')
             (Some [(''id'', JSNumber (Num 7)), (''Firstname'', JSString ''Aino''),
                    (''Surname'', JSString ''Ranta'')])] users) \<and>
   id_u (run [Post_data (Some ''application/json'')
             (Some [(''id'', JSNumber (Num 7)), (''Firstname'', JSString ''Aino''),
                    (''Surname'', JSString ''Ranta'')])] users ! 2) = JSNumber (Num 7) \<and>
   fst (get_data_id ''7''
     (run [Post_data (Some ''application/json'')
             (Some [(''id'', JSNumber (Num 7)), (''Firstname'', JSString ''Aino''),
                    (''Surname'', JSString ''Ranta'')])] users)) =
     Response 404 (error_json ''User not found'')"
proof (intro conjI)
  show "reachable
     (run [Post_data (Some ''application/json'')
             (Some [(''id'', JSNumber (Num 7)), (''Firstname'', JSString ''Aino''),
                    (''Surname'', JSString ''Ranta'')])] users)"
    by (rule reachable_run) (rule reachable.seed)
  show "id_u (run [Post_data (Some ''application/json'')
             (Some [(''id'', JSNumber (Num 7)), (''Firstname'', JSString ''Aino''),
                    (''Surname'', JSString ''Ranta'')])] users ! 2) = JSNumber (Num 7)"
    by (simp add: post_data_def Let_def get_prop_def Object_keys_def users_def)
  show "fst (get_data_id ''7''
     (run [Post_data (Some ''application/json'')
             (Some [(''id'', JSNumber (Num 7)), (''Firstname'', JSString ''Aino''),
                    (''Surname'', JSString ''Ranta'')])] users)) =
     Response 404 (error_json ''User not found'')"
    by (simp add: post_data_def Let_def get_prop_def Object_keys_def users_def get_data_id_def)
qed

section \<open>Delete: \<^verbatim>\<open>DELETE /user/:user_id\<close>\<close>

lemma delete_user_absent:
  "(\<forall>u\<in>set us. id_u u \<noteq> JSString i) \<Longrightarrow>
     delete_user i us = (Response 404 (error_json ''user not found''), us)"
  by (simp add: delete_user_def findIndex_none)

lemma delete_user_present:
  assumes "fst (delete_user i us) \<noteq> Response 404 (error_json ''user not found'')"
  defines "k \<equiv> nat (findIndex (\<lambda>u. strict_eq (id_u u) (JSString i)) us)"
  shows "k < length us" and "id_u (us ! k) = JSString i"
    and "\<forall>j<k. id_u (us ! j) \<noteq> JSString i"
    and "delete_user i us = (Response 204 No_body, take k us @ drop (Suc k) us)"
proof -
  let ?P = "\<lambda>u. strict_eq (id_u u) (JSString i)"
  from assms(1) have ne: "findIndex ?P us \<noteq> - 1"
    by (auto simp: delete_user_def Let_def split: if_splits)
  from findIndex_some [OF ne] show "k < length us" "id_u (us ! k) = JSString i"
    "\<forall>j<k. id_u (us ! j) \<noteq> JSString i" by (simp_all add: k_def)
  from ne show "delete_user i us = (Response 204 No_body, take k us @ drop (Suc k) us)"
    by (simp add: delete_user_def Let_def splice1_def k_def)
qed

lemma removed_no_match:
  assumes "k < length us" and "\<forall>j<length us. j \<noteq> k \<longrightarrow> id_u (us ! j) \<noteq> v"
  shows "\<forall>u\<in>set (take k us @ drop (Suc k) us). id_u u \<noteq> v"
proof
  fix u assume "u \<in> set (take k us @ drop (Suc k) us)"
  then consider "u \<in> set (take k us)" | "u \<in> set (drop (Suc k) us)" by auto
  then show "id_u u \<noteq> v"
  proof cases
    case 1
    then obtain j where "j < k" "u = us ! j" using assms(1)
      by (auto simp: in_set_conv_nth)
    with assms show ?thesis by simp
  next
    case 2
    then obtain j where "j < length us - Suc k" "u = us ! (Suc k + j)"
      by (auto simp: in_set_conv_nth)
    with assms show ?thesis by simp
  qed
qed

text \<open>
  C6. In every registry the server can hold, \<^verbatim>\<open>DELETE /user/{user_id}\<close> answers 404
  with \<^verbatim>\<open>{"error":"user not found"}\<close> and leaves the registry as it was when no record
  has the path parameter as id; when a record \<open>u\<close> has it, the answer is 204 with no
  body and the registry left behind is the old one without the position \<open>k\<close> that held
  \<open>u\<close> (the records before \<open>k\<close>, then the records after \<open>k\<close>), \<open>u\<close> is no longer in
  it, and \<^verbatim>\<open>GET /data/{id}\<close> for the same id on it answers 404.
\<close>

theorem delete_user_outcome:
  assumes "reachable us"
  shows "((\<forall>u\<in>set us. id_u u \<noteq> JSString i) \<longrightarrow>
            delete_user i us = (Response 404 (error_json ''user not found''), us)) \<and>
         (\<forall>u\<in>set us. id_u u = JSString i \<longrightarrow>
            (\<exists>k<length us. us ! k = u \<and>
               delete_user i us = (Response 204 No_body, take k us @ drop (Suc k) us)) \<and>
            fst (delete_user i us) = Response 204 No_body \<and>
            u \<notin> set (snd (delete_user i us)) \<and>
            get_data_id i (snd (delete_user i us)) =
              (Response 404 (error_json ''User not found''), snd (delete_user i us)))"
proof (intro conjI ballI impI)
  assume "\<forall>u\<in>set us. id_u u \<noteq> JSString i"
  then show "delete_user i us = (Response 404 (error_json ''user not found''), us)"
    by (rule delete_user_absent)
next
  fix u assume u: "u \<in> set us" "id_u u = JSString i"
  let ?P = "\<lambda>u. strict_eq (id_u u) (JSString i)"
  let ?k = "nat (findIndex ?P us)"
  from assms have uq: "unique_ids us" by (rule reachable_unique_ids)
  note first = unique_ids_first [OF uq u]
  from first(1) have ok: "fst (delete_user i us) \<noteq> Response 404 (error_json ''user not found'')"
    by (simp add: delete_user_def Let_def)
  note del = delete_user_present [OF ok]
  from del(1) first(2) del(4)
  show "\<exists>k<length us. us ! k = u \<and>
          delete_user i us = (Response 204 No_body, take k us @ drop (Suc k) us)"
    by blast
  from del(4) show "fst (delete_user i us) = Response 204 No_body" by simp
  have rest: "snd (delete_user i us) = take ?k us @ drop (Suc ?k) us"
    by (simp only: del(4) snd_conv)
  have gone: "\<forall>w\<in>set (snd (delete_user i us)). id_u w \<noteq> JSString i"
    unfolding rest by (rule removed_no_match [OF del(1) first(3)])
  with u(2) show "u \<notin> set (snd (delete_user i us))" by blast
  from gone have "find ?P (snd (delete_user i us)) = None" by (simp add: find_None_iff)
  then show "get_data_id i (snd (delete_user i us)) =
      (Response 404 (error_json ''User not found''), snd (delete_user i us))"
    by (simp add: get_data_id_def)
qed

theorem delete_user_outcome_witness:
  "reachable users \<and>
   delete_user ''7'' users = (Response 404 (error_json ''user not found''), users) \<and>
   delete_user ''1'' users =
     (Response 204 No_body,
      [\<lparr>id_u = JSString ''2'', Firstname = JSString ''Petri'', Surname = JSString ''Laitinen''\<rparr>]) \<and>
   get_data_id ''1'' (snd (delete_user ''1'' users)) =
     (Response 404 (error_json ''User not found''), snd (delete_user ''1'' users))"
proof -
  have a: "\<forall>u\<in>set users. id_u u \<noteq> JSString ''7''" by (simp add: users_def)
  have m: "\<lparr>id_u = JSString ''1'', Firstname = JSString ''Jyri'', Surname = JSString ''Kemppainen''\<rparr>
      \<in> set users" by (simp add: users_def)
  from delete_user_outcome [OF reachable.seed, of "''7''"] a
  have r7: "delete_user ''7'' users = (Response 404 (error_json ''user not found''), users)"
    by blast
  from delete_user_outcome [OF reachable.seed, of "''1''"] m
  have r1: "(\<exists>k<length users.
        users ! k = \<lparr>id_u = JSString ''1'', Firstname = JSString ''Jyri'', Surname = JSString ''Kemppainen''\<rparr> \<and>
        delete_user ''1'' users = (Response 204 No_body, take k users @ drop (Suc k) users))"
    and g: "get_data_id ''1'' (snd (delete_user ''1'' users)) =
     (Response 404 (error_json ''User not found''), snd (delete_user ''1'' users))"
    by auto
  from r1 have "delete_user ''1'' users =
     (Response 204 No_body,
      [\<lparr>id_u = JSString ''2'', Firstname = JSString ''Petri'', Surname = JSString ''Laitinen''\<rparr>])"
    by (auto simp: users_def less_Suc_eq)
  with r7 g reachable.seed show ?thesis by simp
qed

text \<open>
  C9. Frame of a delete, in every registry the server can hold: when
  \<^verbatim>\<open>DELETE /user/{user_id}\<close> answers 204, there is one position \<open>k\<close> whose record has the
  path parameter as id, no other position has it, and the registry left behind is the
  records before \<open>k\<close> followed by the records after \<open>k\<close>, unchanged and in their
  order: one record fewer.
\<close>

theorem delete_user_frame:
  assumes "reachable us" and "fst (delete_user i us) = Response 204 p"
  shows "\<exists>k<length us. id_u (us ! k) = JSString i \<and>
           (\<forall>j<length us. j \<noteq> k \<longrightarrow> id_u (us ! j) \<noteq> JSString i) \<and>
           snd (delete_user i us) = take k us @ drop (Suc k) us \<and>
           length (snd (delete_user i us)) = length us - 1"
proof -
  let ?k = "nat (findIndex (\<lambda>u. strict_eq (id_u u) (JSString i)) us)"
  from assms(2) have ok: "fst (delete_user i us) \<noteq> Response 404 (error_json ''user not found'')"
    by simp
  note del = delete_user_present [OF ok]
  from assms(1) have uq: "unique_ids us" by (rule reachable_unique_ids)
  from del(1) have mem: "us ! ?k \<in> set us" by simp
  from unique_ids_first(3) [OF uq mem del(2)]
  have only: "\<forall>j<length us. j \<noteq> ?k \<longrightarrow> id_u (us ! j) \<noteq> JSString i" .
  from del(1,4) have "length (snd (delete_user i us)) = length us - 1" by simp
  with del only show ?thesis by auto
qed

theorem delete_user_frame_witness:
  "reachable users \<and> fst (delete_user ''1'' users) = Response 204 No_body \<and>
   snd (delete_user ''1'' users) =
     [\<lparr>id_u = JSString ''2'', Firstname = JSString ''Petri'', Surname = JSString ''Laitinen''\<rparr>]"
proof -
  have d: "fst (delete_user ''1'' users) = Response 204 No_body"
    by (simp add: delete_user_def users_def Let_def splice1_def)
  from delete_user_frame [OF reachable.seed d] d reachable.seed
  show ?thesis by (auto simp: users_def less_Suc_eq)
qed

section \<open>Uniqueness of ids\<close>

text \<open>
  C7, amended. Starting from the two seed records, after any sequence of handled
  requests the registry holds at most one record per primitive id value (a string, a
  number, a boolean). Ids that are JSON arrays or objects are outside this statement:
  the duplicate check of \<^verbatim>\<open>POST /data\<close> compares them by reference, and the
  counterexample is the registry after two \<^verbatim>\<open>POST\<close> requests with the id \<^verbatim>\<open>[]\<close>,
  which holds two records with that id.
\<close>

theorem registry_unique_primitive_ids:
  assumes "reachable us" and "primitive v"
  shows "count_id v us \<le> 1"
  using reachable_unique_ids [OF assms(1)] assms(2) by (simp add: unique_ids_def)

theorem registry_unique_primitive_ids_witness:
  "reachable
     (run [Post_data (Some ''application/json'')
             (Some [(''id'', JSString ''3''), (''Firstname'', JSString ''Maria''),
                    (''Surname'', JSString ''Virtanen'')]),
           Post_data (Some ''application/json'')
             (Some [(''id'', JSString ''3''), (''Firstname'', JSString ''Aino''),
                    (''Surname'', JSString ''Ranta'')]),
           Put_users ''3'' (Some ''application/json'')
             (Some [(''Firstname'', JSString ''Louvre''), (''Surname'', JSString ''Museum'')]),
           Put_users ''4'' (Some ''application/json'')
             (Some [(''Firstname'', JSString ''Statue''), (''Surname'', JSString ''Liberty'')]),
           Delete_user ''1''] users) \<and>
   primitive (JSString ''3'') \<and>
   count_id (JSString ''3'')
     (run [Post_data (Some ''application/json'')
             (Some [(''id'', JSString ''3''), (''Firstname'', JSString ''Maria''),
                    (''Surname'', JSString ''Virtanen'')]),
           Post_data (Some ''application/json'')
             (Some [(''id'', JSString ''3''), (''Firstname'', JSString ''Aino''),
                    (''Surname'', JSString ''Ranta'')]),
           Put_users ''3'' (Some ''application/json'')
             (Some [(''Firstname'', JSString ''Louvre''), (''Surname'', JSString ''Museum'')]),
           Put_users ''4'' (Some ''application/json'')
             (Some [(''Firstname'', JSString ''Statue''), (''Surname'', JSString ''Liberty'')]),
           Delete_user ''1''] users) = 1"
proof -
  let ?rs = "[Post_data (Some ''application/json'')
             (Some [(''id'', JSString ''3''), (''Firstname'', JSString ''Maria''),
                    (''Surname'', JSString ''Virtanen'')]),
           Post_data (Some ''application/json'')
             (Some [(''id'', JSString ''3''), (''Firstname'', JSString ''Aino''),
                    (''Surname'', JSString ''Ranta'')]),
           Put_users ''3'' (Some ''application/json'')
             (Some [(''Firstname'', JSString ''Louvre''), (''Surname'', JSString ''Museum'')]),
           Put_users ''4'' (Some ''application/json'')
             (Some [(''Firstname'', JSString ''Statue''), (''Surname'', JSString ''Liberty'')]),
           Delete_user ''1'']"
  have r: "reachable (run ?rs users)" by (rule reachable_run) (rule reachable.seed)
  have p: "primitive (JSString ''3'')" by simp
  have e: "run ?rs users =
      [\<lparr>id_u = JSString ''2'', Firstname = JSString ''Petri'', Surname = JSString ''Laitinen''\<rparr>,
       \<lparr>id_u = JSString ''3'', Firstname = JSString ''Louvre'', Surname = JSString ''Museum''\<rparr>,
       \<lparr>id_u = JSString ''4'', Firstname = JSString ''Statue'', Surname = JSString ''Liberty''\<rparr>]"
    by (simp add: post_data_def put_users_def delete_user_def splice1_def Let_def get_prop_def
        Object_keys_def users_def)
  have c: "1 \<le> count_id (JSString ''3'') (run ?rs users)"
    unfolding e by (simp add: count_id_def)
  from registry_unique_primitive_ids [OF r p] c r p show ?thesis by simp
qed

theorem registry_unique_ids_counterexample:
  "reachable
     (run [Post_data (Some ''application/json'')
             (Some [(''id'', JSArray []), (''Firstname'', JSString ''A''), (''Surname'', JSString ''B'')]),
           Post_data (Some ''application/json'')
             (Some [(''id'', JSArray []), (''Firstname'', JSString ''A''), (''Surname'', JSString ''B'')])]
        users) \<and>
   count_id (JSArray [])
     (run [Post_data (Some ''application/json'')
             (Some [(''id'', JSArray []), (''Firstname'', JSString ''A''), (''Surname'', JSString ''B'')]),
           Post_data (Some ''application/json'')
             (Some [(''id'', JSArray []), (''Firstname'', JSString ''A''), (''Surname'', JSString ''B'')])]
        users) = 2"
proof
  show "reachable
     (run [Post_data (Some ''application/json'')
             (Some [(''id'', JSArray []), (''Firstname'', JSString ''A''), (''Surname'', JSString ''B'')]),
           Post_data (Some ''application/json'')
             (Some [(''id'', JSArray []), (''Firstname'', JSString ''A''), (''Surname'', JSString ''B'')])]
        users)"
    by (rule reachable_run) (rule reachable.seed)
  show "count_id (JSArray [])
     (run [Post_data (Some ''application/json'')
             (Some [(''id'', JSArray []), (''Firstname'', JSString ''A''), (''Surname'', JSString ''B'')]),
           Post_data (Some ''application/json'')
             (Some [(''id'', JSArray []), (''Firstname'', JSString ''A''), (''Surname'', JSString ''B'')])]
        users) = 2"
    by (simp add: post_data_def Let_def get_prop_def Object_keys_def users_def count_id_def)
qed

end
